theory Spec2Isabelle
  imports Complex_Main
begin

section \<open>The SM-2 scheduler (\<open>calculateSRS\<close>)\<close>

text \<open>
  The scheduler works on JavaScript numbers. They are modelled as exact reals: the
  rounding error of IEEE double arithmetic is not represented, and neither are NaN and
  the infinities. The clock read by \<open>Date.now()\<close> is an explicit argument \<open>now\<close>.
\<close>

datatype status = New | Learning | Review | Mastered

record SRSInput =
  grade :: real
  previousEaseFactor :: real
  previousInterval :: real

record SRSOutput =
  interval :: real
  nextReview :: real
  easeFactor :: real
  status :: status

definition MIN_EASE_FACTOR :: real where
  "MIN_EASE_FACTOR = 1.3"

definition DEFAULT_EASE_FACTOR :: real where
  "DEFAULT_EASE_FACTOR = 2.5"

text \<open>
  \<open>parseFloat(x.toFixed(2))\<close>: \<open>toFixed\<close> prints the integer \<open>n\<close> for which
  \<open>n / 100\<close> is nearest to \<open>x\<close> (the larger one on a tie) after splitting off the sign,
  and prints \<open>x\<close> itself from \<open>10^21\<close> on.
\<close>

definition toFixed2 :: "real \<Rightarrow> real" where
  "toFixed2 x =
     (if 10 ^ 21 \<le> \<bar>x\<bar> then x
      else if x < 0 then - (of_int \<lfloor>- x * 100 + 1 / 2\<rfloor> / 100)
      else of_int \<lfloor>x * 100 + 1 / 2\<rfloor> / 100)"

definition calculateSRS :: "real \<Rightarrow> SRSInput \<Rightarrow> SRSOutput" where
  "calculateSRS now input =
     (let g = grade input;
          ef0 = previousEaseFactor input + (0.1 - (5 - g) * (0.08 + (5 - g) * 0.02));
          newEaseFactor = (if ef0 < MIN_EASE_FACTOR then MIN_EASE_FACTOR else ef0);
          newInterval =
            (if g < 3 then 1
             else if previousInterval input = 0 then 1
             else if previousInterval input = 1 then 6
             else of_int \<lceil>previousInterval input * newEaseFactor\<rceil>);
          oneDayInMs = 24 * 60 * 60 * 1000
      in \<lparr> interval = newInterval,
           nextReview = now + newInterval * oneDayInMs,
           easeFactor = toFixed2 newEaseFactor,
           status = (if g < 3 then Learning
                     else if newInterval > 180 then Mastered else Review) \<rparr>)"

definition getInitialSRSState :: "real \<Rightarrow> SRSOutput" where
  "getInitialSRSState now =
     \<lparr> interval = 0, nextReview = now, easeFactor = DEFAULT_EASE_FACTOR, status = New \<rparr>"

text \<open>
  The ease factor before it is rounded for output (the local \<open>newEaseFactor\<close> of
  \<open>calculateSRS\<close>), named so that theorems can refer to it.
\<close>

definition clampedEase :: "SRSInput \<Rightarrow> real" where
  "clampedEase input =
     (let g = grade input;
          ef0 = previousEaseFactor input + (0.1 - (5 - g) * (0.08 + (5 - g) * 0.02))
      in if ef0 < MIN_EASE_FACTOR then MIN_EASE_FACTOR else ef0)"


section \<open>The scheduler in binary64 arithmetic\<close>

text \<open>
  The definitions above compute in exact reals. The engine computes in IEEE 754
  binary64: every sum, difference and product is the exact result rounded to the
  nearest double, ties to even, and a decimal literal denotes the nearest double. This
  section repeats \<open>calculateSRS\<close> with that arithmetic. A number is a finite double,
  given by its exact value, one of the two infinities, or NaN; the two zeros are not
  told apart (\<open>===\<close> does not tell them apart either).
\<close>

datatype number = Fin real | PosInf | NegInf | NaN

text \<open>
  Rounding to binary64. For \<open>x \<ge> 1\<close>, \<open>halvings\<close> counts the halvings that bring \<open>x\<close>
  below 2; for \<open>x < 1\<close>, \<open>doublings\<close> counts the doublings that bring it to 1 or
  above, at most 1022 of them, which is where the subnormal range begins. The doubles
  next to \<open>x\<close> are \<open>ulp x\<close> apart, 52 binary places below the leading one. A result
  beyond the largest double is an infinity.
\<close>

fun halvings :: "nat \<Rightarrow> real \<Rightarrow> int" where
  "halvings 0 x = 0"
| "halvings (Suc k) x = (if 2 \<le> x then halvings k (x / 2) + 1 else 0)"

fun doublings :: "nat \<Rightarrow> real \<Rightarrow> int" where
  "doublings 0 x = 0"
| "doublings (Suc k) x = (if x < 1 then doublings k (x * 2) + 1 else 0)"

definition exponent :: "real \<Rightarrow> int" where
  "exponent x = (if 1 \<le> x then halvings 1024 x else - doublings 1022 x)"

definition ulp :: "real \<Rightarrow> real" where
  "ulp x = (let e = exponent \<bar>x\<bar> - 52 in if 0 \<le> e then 2 ^ nat e else 1 / 2 ^ nat (- e))"

definition round_even :: "real \<Rightarrow> int" where
  "round_even r =
     (let f = \<lfloor>r\<rfloor> in
      if r - of_int f < 1 / 2 then f
      else if 1 / 2 < r - of_int f then f + 1
      else if even f then f else f + 1)"

definition MAX_VALUE :: real where
  "MAX_VALUE = (2 ^ 53 - 1) * 2 ^ 971"

definition to_double :: "real \<Rightarrow> number" where
  "to_double x =
     (let y = of_int (round_even (x / ulp x)) * ulp x in
      if MAX_VALUE < \<bar>y\<bar> then (if 0 < x then PosInf else NegInf) else Fin y)"

text \<open>The operators \<open>-x\<close>, \<open>+\<close>, \<open>-\<close>, \<open>*\<close>, \<open><\<close>, \<open>>\<close>, \<open>>=\<close> and \<open>===\<close> on numbers.\<close>

fun js_neg :: "number \<Rightarrow> number" where
  "js_neg (Fin x) = Fin (- x)"
| "js_neg PosInf = NegInf"
| "js_neg NegInf = PosInf"
| "js_neg NaN = NaN"

fun js_add :: "number \<Rightarrow> number \<Rightarrow> number" where
  "js_add (Fin x) (Fin y) = to_double (x + y)"
| "js_add NaN b = NaN"
| "js_add a NaN = NaN"
| "js_add PosInf NegInf = NaN"
| "js_add NegInf PosInf = NaN"
| "js_add PosInf b = PosInf"
| "js_add NegInf b = NegInf"
| "js_add (Fin x) b = b"

definition js_sub :: "number \<Rightarrow> number \<Rightarrow> number" where
  "js_sub a b = js_add a (js_neg b)"

fun js_mul :: "number \<Rightarrow> number \<Rightarrow> number" where
  "js_mul (Fin x) (Fin y) = to_double (x * y)"
| "js_mul NaN b = NaN"
| "js_mul a NaN = NaN"
| "js_mul (Fin x) b = (if x = 0 then NaN else if 0 < x then b else js_neg b)"
| "js_mul a (Fin y) = (if y = 0 then NaN else if 0 < y then a else js_neg a)"
| "js_mul a b = (if a = b then PosInf else NegInf)"

fun js_lt :: "number \<Rightarrow> number \<Rightarrow> bool" where
  "js_lt (Fin x) (Fin y) = (x < y)"
| "js_lt NaN b = False"
| "js_lt a NaN = False"
| "js_lt a NegInf = False"
| "js_lt PosInf b = False"
| "js_lt a b = True"

fun js_eq :: "number \<Rightarrow> number \<Rightarrow> bool" where
  "js_eq NaN b = False"
| "js_eq a NaN = False"
| "js_eq a b = (a = b)"

definition js_gt :: "number \<Rightarrow> number \<Rightarrow> bool" where
  "js_gt a b = js_lt b a"

definition js_ge :: "number \<Rightarrow> number \<Rightarrow> bool" where
  "js_ge a b = (js_lt b a \<or> js_eq a b)"

fun Math_ceil :: "number \<Rightarrow> number" where
  "Math_ceil (Fin x) = Fin (of_int \<lceil>x\<rceil>)"
| "Math_ceil a = a"

text \<open>
  \<open>parseFloat(x.toFixed(2))\<close> on a double: \<open>toFixed\<close> works on the exact value of
  \<open>x\<close>, as in \<open>toFixed2\<close> above, \<open>parseFloat\<close> reads the printed decimal as the nearest
  double, and an infinity or NaN is printed and read back as itself.
\<close>

fun toFixed2_64 :: "number \<Rightarrow> number" where
  "toFixed2_64 (Fin x) =
     (if 10 ^ 21 \<le> \<bar>x\<bar> then Fin x
      else if x < 0 then js_neg (to_double (of_int \<lfloor>- x * 100 + 1 / 2\<rfloor> / 100))
      else to_double (of_int \<lfloor>x * 100 + 1 / 2\<rfloor> / 100))"
| "toFixed2_64 a = a"

record SRSInput64 =
  grade64 :: number
  previousEaseFactor64 :: number
  previousInterval64 :: number

record SRSOutput64 =
  interval64 :: number
  nextReview64 :: number
  easeFactor64 :: number
  status64 :: status

definition MIN_EASE_FACTOR64 :: number where
  "MIN_EASE_FACTOR64 = to_double 1.3"

definition calculateSRS64 :: "number \<Rightarrow> SRSInput64 \<Rightarrow> SRSOutput64" where
  "calculateSRS64 now input =
     (let g = grade64 input;
          ef0 = js_add (previousEaseFactor64 input)
                  (js_sub (to_double 0.1)
                     (js_mul (js_sub (Fin 5) g)
                        (js_add (to_double 0.08) (js_mul (js_sub (Fin 5) g) (to_double 0.02)))));
          newEaseFactor = (if js_lt ef0 MIN_EASE_FACTOR64 then MIN_EASE_FACTOR64 else ef0);
          newInterval =
            (if js_lt g (Fin 3) then Fin 1
             else if js_eq (previousInterval64 input) (Fin 0) then Fin 1
             else if js_eq (previousInterval64 input) (Fin 1) then Fin 6
             else Math_ceil (js_mul (previousInterval64 input) newEaseFactor));
          oneDayInMs = js_mul (js_mul (js_mul (Fin 24) (Fin 60)) (Fin 60)) (Fin 1000)
      in \<lparr> interval64 = newInterval,
           nextReview64 = js_add now (js_mul newInterval oneDayInMs),
           easeFactor64 = toFixed2_64 newEaseFactor,
           status64 = (if js_lt g (Fin 3) then Learning
                       else if js_gt newInterval (Fin 180) then Mastered else Review) \<rparr>)"

text \<open>The local \<open>newEaseFactor\<close> of \<open>calculateSRS64\<close>.\<close>

definition clampedEase64 :: "SRSInput64 \<Rightarrow> number" where
  "clampedEase64 input =
     (let g = grade64 input;
          ef0 = js_add (previousEaseFactor64 input)
                  (js_sub (to_double 0.1)
                     (js_mul (js_sub (Fin 5) g)
                        (js_add (to_double 0.08) (js_mul (js_sub (Fin 5) g) (to_double 0.02)))))
      in if js_lt ef0 MIN_EASE_FACTOR64 then MIN_EASE_FACTOR64 else ef0)"


section \<open>The review deck table and \<open>saveItem\<close>\<close>

text \<open>
  The table \<open>user_review_deck\<close> is a list of rows in creation order, which is the order
  of the index \<open>by_user\<close> within one user. The ids of its own documents are natural
  numbers handed out by a counter. A mutation runs as one transaction: it is a function
  from table to table, and one that throws leaves the table as it was.
\<close>

datatype item_type = Sentence | Grammar | Character

datatype id_field = SentenceId | GrammarId | CharacterId

record card = SRSOutput +
  c_id :: nat
  c_userId :: string
  c_type :: item_type
  sentenceId :: "string option"
  grammarId :: "string option"
  characterId :: "string option"
  lastReview :: "real option"

record deck_db =
  rows :: "card list"
  next_id :: nat

record saveItem_args = SRSOutput +
  userId :: string
  itemId :: string
  itemType :: item_type

datatype action = Created | Updated

datatype error = TypeError | StoreError | ArgumentValidationError | SchemaValidationError

text \<open>
  The arguments and the id columns refer to documents of other tables by id strings.
  Which table a string is a document id of, if of any, is fixed by the deployment and
  is a parameter here.
\<close>

datatype table = TUsers | TSentences | TGrammar | TCharacters

type_synonym id_space = "string \<Rightarrow> table option"

fun table_of :: "item_type \<Rightarrow> table" where
  "table_of Sentence = TSentences"
| "table_of Grammar = TGrammar"
| "table_of Character = TCharacters"

record save_result =
  action :: action
  res_id :: nat

fun idField_of :: "item_type \<Rightarrow> id_field" where
  "idField_of Sentence = SentenceId"
| "idField_of Grammar = GrammarId"
| "idField_of Character = CharacterId"

fun field :: "id_field \<Rightarrow> card \<Rightarrow> string option" where
  "field SentenceId r = sentenceId r"
| "field GrammarId r = grammarId r"
| "field CharacterId r = characterId r"

fun set_field :: "id_field \<Rightarrow> string \<Rightarrow> card \<Rightarrow> card" where
  "set_field SentenceId v r = r\<lparr>sentenceId := Some v\<rparr>"
| "set_field GrammarId v r = r\<lparr>grammarId := Some v\<rparr>"
| "set_field CharacterId v r = r\<lparr>characterId := Some v\<rparr>"

definition key_matches :: "string \<Rightarrow> id_field \<Rightarrow> string \<Rightarrow> card \<Rightarrow> bool" where
  "key_matches u f i r \<longleftrightarrow> c_userId r = u \<and> field f r = Some i"

definition query_first :: "deck_db \<Rightarrow> string \<Rightarrow> id_field \<Rightarrow> string \<Rightarrow> card option" where
  "query_first db u f i = find (key_matches u f i) (rows db)"

definition db_patch :: "nat \<Rightarrow> (card \<Rightarrow> card) \<Rightarrow> deck_db \<Rightarrow> deck_db" where
  "db_patch i upd db = db\<lparr>rows := map (\<lambda>r. if c_id r = i then upd r else r) (rows db)\<rparr>"

definition db_insert :: "(nat \<Rightarrow> card) \<Rightarrow> deck_db \<Rightarrow> nat \<times> deck_db"  where
  "db_insert mk db =
     (next_id db, db\<lparr>rows := rows db @ [mk (next_id db)], next_id := Suc (next_id db)\<rparr>)"

definition patch_card :: "real \<Rightarrow> saveItem_args \<Rightarrow> card \<Rightarrow> card" where
  "patch_card now args r =
     r\<lparr>nextReview := nextReview args, interval := interval args,
       easeFactor := easeFactor args, status := status args, lastReview := Some now\<rparr>"

definition newCardData :: "real \<Rightarrow> saveItem_args \<Rightarrow> nat \<Rightarrow> card" where
  "newCardData now args new_id =
     set_field (idField_of (itemType args)) (itemId args)
       \<lparr> interval = interval args, nextReview = nextReview args,
         easeFactor = easeFactor args, status = status args,
         c_id = new_id, c_userId = userId args, c_type = itemType args,
         sentenceId = None, grammarId = None, characterId = None,
         lastReview = Some now \<rparr>"

text \<open>
  The \<open>handler\<close> function of the mutation, with every write accepted: the lookup by
  user and id column, then the patch of the row found or the insert of a new row.
\<close>

definition saveItem_handler ::
  "real \<Rightarrow> saveItem_args \<Rightarrow> deck_db \<Rightarrow> save_result \<times> deck_db" where
  "saveItem_handler now args db =
     (let idField = idField_of (itemType args);
          normalizedId = itemId args
      in case query_first db (userId args) idField normalizedId of
           Some existingCard \<Rightarrow>
             (\<lparr>action = Updated, res_id = c_id existingCard\<rparr>,
              db_patch (c_id existingCard) (patch_card now args) db)
         | None \<Rightarrow>
             (let (newId, db') = db_insert (newCardData now args) db
              in (\<lparr>action = Created, res_id = newId\<rparr>, db')))"

text \<open>
  The mutation \<open>saveItem\<close> as the store runs it. The \<open>args\<close> validators come first:
  \<open>userId\<close> must be the id of a \<open>users\<close> document (item type, status and the numbers
  are typed, \<open>itemId\<close> is any string). Then the handler runs; its insert is checked
  against the schema of the table, where the id column of an item type holds ids of
  that type's table. A call that fails either check throws and writes nothing.
\<close>

definition saveItem ::
  "id_space \<Rightarrow> real \<Rightarrow> saveItem_args \<Rightarrow> deck_db \<Rightarrow> (error + save_result) \<times> deck_db" where
  "saveItem ids now args db =
     (if ids (userId args) \<noteq> Some TUsers then (Inl ArgumentValidationError, db)
      else if query_first db (userId args) (idField_of (itemType args)) (itemId args) = None
              \<and> ids (itemId args) \<noteq> Some (table_of (itemType args))
      then (Inl SchemaValidationError, db)
      else (Inr (fst (saveItem_handler now args db)), snd (saveItem_handler now args db)))"

text \<open>
  The record of a composite key, in the words of the specification: the row of user
  \<open>u\<close> that refers to item \<open>i\<close> of type \<open>t\<close>, which it does in the id column of
  that type.
\<close>

definition has_key :: "string \<Rightarrow> item_type \<Rightarrow> string \<Rightarrow> card \<Rightarrow> bool" where
  "has_key u t i r \<longleftrightarrow>
     c_userId r = u
     \<and> (case t of Sentence \<Rightarrow> sentenceId r | Grammar \<Rightarrow> grammarId r | Character \<Rightarrow> characterId r)
         = Some i"

text \<open>Document ids are unique and below the counter.\<close>

definition wf_deck :: "deck_db \<Rightarrow> bool" where
  "wf_deck db \<longleftrightarrow> distinct (map c_id (rows db)) \<and> list_all (\<lambda>r. c_id r < next_id db) (rows db)"


section \<open>The offline cache (\<open>OfflineCache\<close>)\<close>

text \<open>
  Local storage maps a key to a stored text. For the pending queue the text is the
  JSON of an action array, as \<open>queuePendingReview\<close> writes it, or the JSON of a value
  that is not an array, or something that does not parse (the empty text included).
  Each storage operation has an outcome flag: the wrappers \<open>Storage.getItem\<close>,
  \<open>setItem\<close> and \<open>removeItem\<close> catch a failing backend, log it, and go on. The id
  that \<open>crypto.randomUUID()\<close> returns is an argument, as the clock is.
\<close>

record review_action =
  a_itemId :: string
  a_itemType :: item_type
  a_grade :: real

record PendingReviewAction = review_action +
  a_id :: string
  a_timestamp :: real

datatype stored = Actions "PendingReviewAction list" | NonArray | Unparseable

datatype pending = Pending "PendingReviewAction list" | NotAnArray

type_synonym storage = "string \<rightharpoonup> stored"

definition PENDING_SYNC :: string where
  "PENDING_SYNC = ''mandarin_mine_pending_sync_v1''"

definition Storage_getItem :: "bool \<Rightarrow> string \<Rightarrow> storage \<Rightarrow> stored option" where
  "Storage_getItem ok key st = (if ok then st key else None)"

definition Storage_setItem :: "bool \<Rightarrow> string \<Rightarrow> stored \<Rightarrow> storage \<Rightarrow> storage" where
  "Storage_setItem ok key v st = (if ok then st(key \<mapsto> v) else st)"

definition Storage_removeItem :: "bool \<Rightarrow> string \<Rightarrow> storage \<Rightarrow> storage" where
  "Storage_removeItem ok key st = (if ok then st(key := None) else st)"

text \<open>
  \<open>getPendingReviews\<close> returns whatever the stored text parses to, so a stored value
  that is not an array comes back as it is; \<open>queuePendingReview\<close> then throws at
  \<open>pending.push\<close> and writes nothing.
\<close>

definition getPendingReviews :: "bool \<Rightarrow> storage \<Rightarrow> pending" where
  "getPendingReviews rd_ok st =
     (case Storage_getItem rd_ok PENDING_SYNC st of
        None \<Rightarrow> Pending []
      | Some Unparseable \<Rightarrow> Pending []
      | Some NonArray \<Rightarrow> NotAnArray
      | Some (Actions pending) \<Rightarrow> Pending pending)"

definition queuePendingReview ::
  "bool \<Rightarrow> bool \<Rightarrow> string \<Rightarrow> real \<Rightarrow> review_action \<Rightarrow> storage \<Rightarrow> error option \<times> storage"
  where
  "queuePendingReview rd_ok wr_ok uuid now act st =
     (case getPendingReviews rd_ok st of
        NotAnArray \<Rightarrow> (Some TypeError, st)
      | Pending pending \<Rightarrow>
          (let newAction = \<lparr> a_itemId = a_itemId act, a_itemType = a_itemType act,
                              a_grade = a_grade act, a_id = uuid, a_timestamp = now \<rparr>
           in (None, Storage_setItem wr_ok PENDING_SYNC (Actions (pending @ [newAction])) st)))"

definition clearPendingReviews :: "bool \<Rightarrow> storage \<Rightarrow> storage" where
  "clearPendingReviews rm_ok st = Storage_removeItem rm_ok PENDING_SYNC st"


section \<open>The review screen (\<open>SRSReviewScreen\<close>)\<close>

text \<open>
  The component state is a record of its \<open>useState\<close> cells together with the current
  result of the reactive \<open>sentences\<close> query (\<open>None\<close> while it loads). The audio cells
  play no part in scheduling and are left out. A handler runs as one step; the
  interleaving of two handlers across an \<open>await\<close> is not modelled.
\<close>

datatype view = Dashboard | Session | Summary

record sentence =
  s_id :: string
  original :: string
  pinyin :: string
  translation :: string

record ReviewItem =
  item_id :: string
  item_type :: item_type
  content :: sentence
  due :: bool
  item_status :: status

record results =
  correct :: nat
  incorrect :: nat
  xpGained :: real

record screen =
  sentences :: "sentence list option"
  viewState :: view
  sessionQueue :: "ReviewItem list"
  currentIndex :: nat
  isFlipped :: bool
  sessionResults :: results

record world =
  screen :: screen
  deck :: deck_db
  device :: storage

definition USER_ID :: string where
  "USER_ID = ''users:123''"

definition reviewDeck :: "sentence list option \<Rightarrow> ReviewItem list option" where
  "reviewDeck ss =
     map_option
       (map (\<lambda>(i, s). \<lparr> item_id = s_id s, item_type = Sentence, content = s,
                         due = (i mod 2 = 0),
                         item_status = (if i mod 3 = 0 then New
                                        else if i mod 3 = 1 then Learning else Review) \<rparr>)
          \<circ> enumerate (0::nat))
       ss"

definition dueItems :: "sentence list option \<Rightarrow> ReviewItem list" where
  "dueItems ss = (case reviewDeck ss of None \<Rightarrow> [] | Some d \<Rightarrow> filter due d)"

definition startSession :: "screen \<Rightarrow> screen" where
  "startSession s =
     (if length (dueItems (sentences s)) = 0 then s
      else s\<lparr> sessionQueue := dueItems (sentences s), currentIndex := 0, isFlipped := False,
              sessionResults := \<lparr>correct = 0, incorrect = 0, xpGained = 0\<rparr>,
              viewState := Session \<rparr>)"

definition handleFlip :: "screen \<Rightarrow> screen" where
  "handleFlip s = s\<lparr>isFlipped := True\<rparr>"

text \<open>
  \<open>handleGrade\<close> returns the error it threw, if any, and the world afterwards. The flag
  \<open>store_ok\<close> says whether the awaited mutation resolves, that is whether the store
  is reached and accepts the call; then its handler has run. A rejected mutation leaves
  the table as it was. The client clock and the server clock are separate arguments.
\<close>

definition gradeArgs :: "real \<Rightarrow> real \<Rightarrow> ReviewItem \<Rightarrow> saveItem_args" where
  "gradeArgs clientNow g currentItem =
     \<lparr> interval = g, nextReview = clientNow + g * 86400000, easeFactor = 2.5,
       status = (if g < 3 then Learning else Review),
       userId = USER_ID, itemId = item_id currentItem, itemType = item_type currentItem \<rparr>"

definition handleGrade ::
  "bool \<Rightarrow> real \<Rightarrow> real \<Rightarrow> real \<Rightarrow> world \<Rightarrow> error option \<times> world" where
  "handleGrade store_ok clientNow serverNow g w =
     (let s = screen w in
      if length (sessionQueue s) \<le> currentIndex s then (Some TypeError, w)
      else if \<not> store_ok then (Some StoreError, w)
      else
        (let currentItem = sessionQueue s ! currentIndex s;
             (res, db') = saveItem_handler serverNow (gradeArgs clientNow g currentItem) (deck w);
             prev = sessionResults s;
             s1 = s\<lparr>sessionResults :=
                      \<lparr> correct = (if g \<ge> 3 then correct prev + 1 else correct prev),
                        incorrect = (if g < 3 then incorrect prev + 1 else incorrect prev),
                        xpGained = xpGained prev + g * 10 \<rparr>\<rparr>;
             s2 = (if currentIndex s < length (sessionQueue s) - 1
                   then s1\<lparr>isFlipped := False, currentIndex := currentIndex s + 1\<rparr>
                   else s1\<lparr>viewState := Summary\<rparr>)
         in (None, w\<lparr>screen := s2, deck := db'\<rparr>)))"

text \<open>
  What the rendered tree lets happen: the loading view has no control; the dashboard
  has the start button; the session view has the exit button, the show-answer button
  while the card is not flipped and the grade buttons once it is; the summary has the
  back button. The query may deliver new sentences at any time.
\<close>

datatype event =
    ClickStart
  | ClickShowAnswer
  | ClickGrade real bool real real
  | ClickExit
  | ClickBack
  | QueryUpdate "sentence list option"

fun react :: "event \<Rightarrow> world \<Rightarrow> world" where
  "react (QueryUpdate ss) w = w\<lparr>screen := (screen w)\<lparr>sentences := ss\<rparr>\<rparr>"
| "react ClickStart w =
     (if viewState (screen w) = Dashboard then w\<lparr>screen := startSession (screen w)\<rparr> else w)"
| "react ClickShowAnswer w =
     (if viewState (screen w) = Session \<and> \<not> isFlipped (screen w)
      then w\<lparr>screen := handleFlip (screen w)\<rparr> else w)"
| "react (ClickGrade g store_ok clientNow serverNow) w =
     (if viewState (screen w) = Session \<and> isFlipped (screen w)
      then snd (handleGrade store_ok clientNow serverNow g w) else w)"
| "react ClickExit w =
     (if viewState (screen w) = Session then w\<lparr>screen := (screen w)\<lparr>viewState := Dashboard\<rparr>\<rparr>
      else w)"
| "react ClickBack w =
     (if viewState (screen w) = Summary then w\<lparr>screen := (screen w)\<lparr>viewState := Dashboard\<rparr>\<rparr>
      else w)"

definition step :: "event \<Rightarrow> world \<Rightarrow> world" where
  "step e w =
     (case e of
        QueryUpdate ss \<Rightarrow> react e w
      | _ \<Rightarrow> (if reviewDeck (sentences (screen w)) = None then w else react e w))"

text \<open>Events are handled one after the other for as long as the session view is shown.\<close>

fun session_run :: "event list \<Rightarrow> world \<Rightarrow> world" where
  "session_run [] w = w"
| "session_run (e # es) w =
     (if viewState (screen w) = Session then session_run es (step e w) else w)"


section \<open>Properties of the scheduler\<close>




lemma calculateSRS_interval:
  "interval (calculateSRS now input) =
     (if grade input < 3 then 1
      else if previousInterval input = 0 then 1
      else if previousInterval input = 1 then 6
      else of_int \<lceil>previousInterval input * clampedEase input\<rceil>)"
  by (simp add: calculateSRS_def clampedEase_def Let_def)

lemma calculateSRS_status_eq:
  "status (calculateSRS now input) =
     (if grade input < 3 then Learning
      else if interval (calculateSRS now input) > 180 then Mastered else Review)"
  by (simp add: calculateSRS_def Let_def)

text \<open>
  C2. For every failing grade (\<open>grade < 3\<close>) and every prior state the new interval
  is 1 and the status is learning.
\<close>

theorem calculateSRS_failure_resets:
  assumes "grade input < 3"
  shows "interval (calculateSRS now input) = 1 \<and> status (calculateSRS now input) = Learning"
  using assms by (simp add: calculateSRS_def Let_def)

theorem calculateSRS_failure_resets_witness:
  "grade \<lparr>grade = 1, previousEaseFactor = 2.5, previousInterval = 100\<rparr> < 3
   \<and> interval (calculateSRS 0 \<lparr>grade = 1, previousEaseFactor = 2.5, previousInterval = 100\<rparr>) = 1
   \<and> status (calculateSRS 0 \<lparr>grade = 1, previousEaseFactor = 2.5, previousInterval = 100\<rparr>)
       = Learning"
  using calculateSRS_failure_resets
    [of "\<lparr>grade = 1, previousEaseFactor = 2.5, previousInterval = 100\<rparr>" 0]
  by simp



text \<open>
  C4. For a grade in \<open>[0, 5]\<close> and a valid prior state the status is mastered exactly
  when the grade is at least 3 and the new interval exceeds 180; with a grade of at
  least 3 and a new interval of at most 180 it is review.
\<close>

theorem calculateSRS_status:
  assumes "0 \<le> grade input" and "grade input \<le> 5"
      and "1.3 \<le> previousEaseFactor input" and "0 \<le> previousInterval input"
  shows "(status (calculateSRS now input) = Mastered
            \<longleftrightarrow> 3 \<le> grade input \<and> 180 < interval (calculateSRS now input))
         \<and> (3 \<le> grade input \<and> interval (calculateSRS now input) \<le> 180
              \<longrightarrow> status (calculateSRS now input) = Review)"
  by (simp add: calculateSRS_status_eq not_less)

theorem calculateSRS_status_witness:
  "status (calculateSRS 0 \<lparr>grade = 5, previousEaseFactor = 2.5, previousInterval = 100\<rparr>) = Mastered
   \<and> 180 < interval (calculateSRS 0 \<lparr>grade = 5, previousEaseFactor = 2.5, previousInterval = 100\<rparr>)"
  using calculateSRS_status
    [of "\<lparr>grade = 5, previousEaseFactor = 2.5, previousInterval = 100\<rparr>" 0]
  by (simp add: calculateSRS_interval clampedEase_def MIN_EASE_FACTOR_def Let_def)





section \<open>Properties of the scheduler in binary64 arithmetic\<close>

lemma halvings_numeral [simp]:
  "halvings (numeral k) x = (if 2 \<le> x then halvings (pred_numeral k) (x / 2) + 1 else 0)"
  by (simp add: numeral_eq_Suc)

lemma doublings_numeral [simp]:
  "doublings (numeral k) x = (if x < 1 then doublings (pred_numeral k) (x * 2) + 1 else 0)"
  by (simp add: numeral_eq_Suc)

lemmas binary64 = to_double_def ulp_def exponent_def round_even_def MAX_VALUE_def Let_def

lemma calculateSRS64_interval:
  "interval64 (calculateSRS64 now input) =
     (if js_lt (grade64 input) (Fin 3) then Fin 1
      else if js_eq (previousInterval64 input) (Fin 0) then Fin 1
      else if js_eq (previousInterval64 input) (Fin 1) then Fin 6
      else Math_ceil (js_mul (previousInterval64 input) (clampedEase64 input)))"
  by (simp add: calculateSRS64_def clampedEase64_def Let_def)

lemma calculateSRS64_easeFactor:
  "easeFactor64 (calculateSRS64 now input) = toFixed2_64 (clampedEase64 input)"
  by (simp add: calculateSRS64_def clampedEase64_def Let_def)

lemma calculateSRS64_status:
  "status64 (calculateSRS64 now input) =
     (if js_lt (grade64 input) (Fin 3) then Learning
      else if js_gt (interval64 (calculateSRS64 now input)) (Fin 180) then Mastered else Review)"
  by (simp add: calculateSRS64_def Let_def)

lemma calculateSRS64_nextReview:
  "nextReview64 (calculateSRS64 now input) =
     js_add now (js_mul (interval64 (calculateSRS64 now input)) (Fin 86400000))"
  by (simp add: calculateSRS64_def Let_def binary64)

lemma js_ge_not_lt: "js_ge a b \<Longrightarrow> \<not> js_lt a b"
  by (cases a; cases b) (auto simp add: js_ge_def)

text \<open>The clamped ease factor at the inputs used below, a double given by its exact value.\<close>

lemma clampedEase64_grade3_from_2_5:
  "clampedEase64 \<lparr>grade64 = Fin 3, previousEaseFactor64 = Fin (5 / 2), previousInterval64 = iv\<rparr>
     = Fin (5314247560297185 / 2 ^ 51)"
  by (simp add: clampedEase64_def MIN_EASE_FACTOR64_def js_sub_def binary64)

lemma to_double_1_3: "to_double 1.3 = Fin (5854679515581645 / 2 ^ 52)"
  by (simp add: binary64)

lemma clampedEase64_grade5_from_1_3:
  "clampedEase64 \<lparr>grade64 = Fin 5, previousEaseFactor64 = Fin (5854679515581645 / 2 ^ 52),
                  previousInterval64 = iv\<rparr>
     = Fin (6305039478318695 / 2 ^ 52)"
  by (simp add: clampedEase64_def MIN_EASE_FACTOR64_def js_sub_def binary64)

lemma to_double_2_36: "to_double 2.36 = Fin (5314247560297185 / 2 ^ 51)"
  by (simp add: binary64)

lemma to_double_1_4: "to_double 1.4 = Fin (3152519739159347 / 2 ^ 51)"
  by (simp add: binary64)

text \<open>
  C1, as the code has it. In the arithmetic of the engine, for a successful grade
  (\<open>grade >= 3\<close>) the new interval is 1 after a previous interval of 0, 6 after a
  previous interval of 1, and otherwise \<open>Math.ceil\<close> of the double product of the
  previous interval and the clamped ease factor, which is the formula's value raised to
  1.3 where it is below, taken before it is rounded to two decimals for output. From
  interval 6 and ease factor 2.5, grade 3 gives interval 15, ease factor 2.36 and
  status review; from interval 25 and ease factor 1.3, grade 5 gives interval 35, the
  product being rounded to 35.
\<close>

theorem calculateSRS64_success_interval:
  assumes "js_ge (grade64 input) (Fin 3)"
  shows "interval64 (calculateSRS64 now input) =
           (if js_eq (previousInterval64 input) (Fin 0) then Fin 1
            else if js_eq (previousInterval64 input) (Fin 1) then Fin 6
            else Math_ceil (js_mul (previousInterval64 input) (clampedEase64 input)))
         \<and> clampedEase64 input =
             (let ef0 = js_add (previousEaseFactor64 input)
                          (js_sub (to_double 0.1)
                             (js_mul (js_sub (Fin 5) (grade64 input))
                                (js_add (to_double 0.08)
                                   (js_mul (js_sub (Fin 5) (grade64 input)) (to_double 0.02)))))
              in if js_lt ef0 (to_double 1.3) then to_double 1.3 else ef0)
         \<and> easeFactor64 (calculateSRS64 now input) = toFixed2_64 (clampedEase64 input)
         \<and> calculateSRS64 now
             \<lparr>grade64 = Fin 3, previousEaseFactor64 = Fin 2.5, previousInterval64 = Fin 6\<rparr>
             = \<lparr>interval64 = Fin 15, nextReview64 = js_add now (Fin 1296000000),
                easeFactor64 = to_double 2.36, status64 = Review\<rparr>
         \<and> interval64 (calculateSRS64 now
               \<lparr>grade64 = Fin 5, previousEaseFactor64 = to_double 1.3,
                previousInterval64 = Fin 25\<rparr>) = Fin 35"
proof (intro conjI)
  show "interval64 (calculateSRS64 now input) =
           (if js_eq (previousInterval64 input) (Fin 0) then Fin 1
            else if js_eq (previousInterval64 input) (Fin 1) then Fin 6
            else Math_ceil (js_mul (previousInterval64 input) (clampedEase64 input)))"
    using js_ge_not_lt [OF assms] by (simp add: calculateSRS64_interval)
next
  show "clampedEase64 input =
             (let ef0 = js_add (previousEaseFactor64 input)
                          (js_sub (to_double 0.1)
                             (js_mul (js_sub (Fin 5) (grade64 input))
                                (js_add (to_double 0.08)
                                   (js_mul (js_sub (Fin 5) (grade64 input)) (to_double 0.02)))))
              in if js_lt ef0 (to_double 1.3) then to_double 1.3 else ef0)"
    by (simp only: clampedEase64_def MIN_EASE_FACTOR64_def Let_def)
next
  show "easeFactor64 (calculateSRS64 now input) = toFixed2_64 (clampedEase64 input)"
    by (rule calculateSRS64_easeFactor)
next
  let ?i = "\<lparr>grade64 = Fin 3, previousEaseFactor64 = Fin 2.5, previousInterval64 = Fin 6\<rparr>"
  have iv: "interval64 (calculateSRS64 now ?i) = Fin 15"
    by (simp add: calculateSRS64_interval clampedEase64_grade3_from_2_5 binary64)
  have ef: "easeFactor64 (calculateSRS64 now ?i) = to_double 2.36"
    unfolding to_double_2_36
    by (simp add: calculateSRS64_easeFactor clampedEase64_grade3_from_2_5 binary64)
  have st: "status64 (calculateSRS64 now ?i) = Review"
    using iv by (simp add: calculateSRS64_status js_gt_def)
  have nr: "nextReview64 (calculateSRS64 now ?i) = js_add now (Fin 1296000000)"
    using iv by (simp add: calculateSRS64_nextReview binary64)
  show "calculateSRS64 now ?i
          = \<lparr>interval64 = Fin 15, nextReview64 = js_add now (Fin 1296000000),
             easeFactor64 = to_double 2.36, status64 = Review\<rparr>"
    using iv ef st nr by (cases "calculateSRS64 now ?i") simp
next
  show "interval64 (calculateSRS64 now
               \<lparr>grade64 = Fin 5, previousEaseFactor64 = to_double 1.3,
                previousInterval64 = Fin 25\<rparr>) = Fin 35"
    unfolding to_double_1_3
    using clampedEase64_grade5_from_1_3 [of "Fin 25"]
    by (simp add: calculateSRS64_interval binary64)
qed

theorem calculateSRS64_success_interval_witness:
  "js_ge (grade64 \<lparr>grade64 = Fin 3, previousEaseFactor64 = Fin 2.5, previousInterval64 = Fin 6\<rparr>)
     (Fin 3)
   \<and> interval64 (calculateSRS64 (Fin 1000)
         \<lparr>grade64 = Fin 3, previousEaseFactor64 = Fin 2.5, previousInterval64 = Fin 6\<rparr>)
       = Math_ceil (js_mul (Fin 6)
           (clampedEase64
              \<lparr>grade64 = Fin 3, previousEaseFactor64 = Fin 2.5, previousInterval64 = Fin 6\<rparr>))
   \<and> calculateSRS64 (Fin 1000)
         \<lparr>grade64 = Fin 3, previousEaseFactor64 = Fin 2.5, previousInterval64 = Fin 6\<rparr>
       = \<lparr>interval64 = Fin 15, nextReview64 = Fin 1296001000,
          easeFactor64 = to_double 2.36, status64 = Review\<rparr>"
proof -
  let ?i = "\<lparr>grade64 = Fin 3, previousEaseFactor64 = Fin 2.5, previousInterval64 = Fin 6\<rparr>"
  have g: "js_ge (grade64 ?i) (Fin 3)"
    by (simp add: js_ge_def)
  note inst = calculateSRS64_success_interval [OF g, of "Fin 1000"]
  have a: "interval64 (calculateSRS64 (Fin 1000) ?i)
             = Math_ceil (js_mul (Fin 6) (clampedEase64 ?i))"
    using inst [THEN conjunct1] by simp
  have b0: "calculateSRS64 (Fin 1000) ?i
              = \<lparr>interval64 = Fin 15, nextReview64 = js_add (Fin 1000) (Fin 1296000000),
                 easeFactor64 = to_double 2.36, status64 = Review\<rparr>"
    using inst by blast
  have sum: "js_add (Fin 1000) (Fin 1296000000) = Fin 1296001000"
    by (simp add: binary64)
  have b: "calculateSRS64 (Fin 1000) ?i
             = \<lparr>interval64 = Fin 15, nextReview64 = Fin 1296001000,
                easeFactor64 = to_double 2.36, status64 = Review\<rparr>"
    using b0 unfolding sum .
  show ?thesis
    using g a b by blast
qed

text \<open>
  C1, as the spec words it, takes the returned ease factor in the product. From
  interval 5 and ease factor 1.3, grade 5 raises the factor to the double next above
  1.4, so the product lies above 7 and the new interval is 8, while the returned factor
  is 1.4 and \<open>Math.ceil\<close> of 5 times 1.4 is 7.
\<close>

theorem calculateSRS64_interval_not_from_returned_ease:
  "js_ge (grade64 \<lparr>grade64 = Fin 5, previousEaseFactor64 = to_double 1.3,
                   previousInterval64 = Fin 5\<rparr>) (Fin 3)
   \<and> js_ge (previousEaseFactor64 \<lparr>grade64 = Fin 5, previousEaseFactor64 = to_double 1.3,
                                  previousInterval64 = Fin 5\<rparr>) (to_double 1.3)
   \<and> js_gt (previousInterval64 \<lparr>grade64 = Fin 5, previousEaseFactor64 = to_double 1.3,
                               previousInterval64 = Fin 5\<rparr>) (Fin 1)
   \<and> interval64 (calculateSRS64 (Fin 0)
         \<lparr>grade64 = Fin 5, previousEaseFactor64 = to_double 1.3, previousInterval64 = Fin 5\<rparr>)
       = Fin 8
   \<and> easeFactor64 (calculateSRS64 (Fin 0)
         \<lparr>grade64 = Fin 5, previousEaseFactor64 = to_double 1.3, previousInterval64 = Fin 5\<rparr>)
       = to_double 1.4
   \<and> Math_ceil (js_mul (Fin 5) (to_double 1.4)) = Fin 7"
proof -
  let ?i = "\<lparr>grade64 = Fin 5, previousEaseFactor64 = Fin (5854679515581645 / 2 ^ 52),
             previousInterval64 = Fin 5\<rparr>"
  have iv: "interval64 (calculateSRS64 (Fin 0) ?i) = Fin 8"
    using clampedEase64_grade5_from_1_3 [of "Fin 5"]
    by (simp add: calculateSRS64_interval binary64)
  have ef: "easeFactor64 (calculateSRS64 (Fin 0) ?i) = Fin (3152519739159347 / 2 ^ 51)"
    using clampedEase64_grade5_from_1_3 [of "Fin 5"]
    by (simp add: calculateSRS64_easeFactor binary64)
  have c: "Math_ceil (js_mul (Fin 5) (Fin (3152519739159347 / 2 ^ 51))) = Fin 7"
    by (simp add: binary64)
  show ?thesis
    unfolding to_double_1_3 to_double_1_4
    using iv ef c by (simp add: js_ge_def js_gt_def)
qed


section \<open>Properties of \<open>saveItem\<close>\<close>


lemma key_matches_patch_card [simp]:
  "key_matches u f i (patch_card now args r) = key_matches u f i r"
  by (cases f) (simp_all add: key_matches_def patch_card_def)

lemma c_id_patch_card [simp]: "c_id (patch_card now args r) = c_id r"
  by (simp add: patch_card_def)

lemma newCardData_fields:
  "interval (newCardData now args n) = interval args
   \<and> nextReview (newCardData now args n) = nextReview args
   \<and> easeFactor (newCardData now args n) = easeFactor args
   \<and> status (newCardData now args n) = status args
   \<and> lastReview (newCardData now args n) = Some now
   \<and> c_id (newCardData now args n) = n
   \<and> c_userId (newCardData now args n) = userId args
   \<and> c_type (newCardData now args n) = itemType args
   \<and> field (idField_of (itemType args)) (newCardData now args n) = Some (itemId args)"
  by (cases "itemType args") (simp_all add: newCardData_def)

lemma key_matches_newCardData:
  "key_matches (userId args) (idField_of (itemType args)) (itemId args) (newCardData now args n)"
  by (simp add: key_matches_def newCardData_fields)

lemma find_map_invariant:
  assumes "\<And>x. P (g x) = P x"
  shows "find P (map g xs) = map_option g (find P xs)"
  by (induction xs) (simp_all add: assms)

lemma filter_map_invariant:
  assumes "\<And>x. P (g x) = P x"
  shows "filter P (map g xs) = map g (filter P xs)"
  by (induction xs) (simp_all add: assms)

lemma find_snoc_absent:
  assumes "find P xs = None" and "P x"
  shows "find P (xs @ [x]) = Some x"
  using assms by (induction xs) (simp_all split: if_splits)

lemma filter_absent:
  assumes "find P xs = None"
  shows "filter P xs = []"
  using assms by (induction xs) (simp_all split: if_splits)

lemma saveItem_handler_absent:
  assumes "query_first db (userId args) (idField_of (itemType args)) (itemId args) = None"
  shows "saveItem_handler now args db =
           (\<lparr>action = Created, res_id = next_id db\<rparr>,
            db\<lparr>rows := rows db @ [newCardData now args (next_id db)],
               next_id := Suc (next_id db)\<rparr>)"
  using assms by (simp add: saveItem_handler_def db_insert_def Let_def)

lemma saveItem_handler_present:
  assumes "query_first db (userId args) (idField_of (itemType args)) (itemId args) = Some r"
  shows "saveItem_handler now args db =
           (\<lparr>action = Updated, res_id = c_id r\<rparr>,
            db\<lparr>rows := map (\<lambda>x. if c_id x = c_id r then patch_card now args x else x)
                           (rows db)\<rparr>)"
  using assms by (simp add: saveItem_handler_def db_patch_def Let_def)

text \<open>After the handler the key is present, under the id that the call returned.\<close>

lemma saveItem_handler_then_present:
  "\<exists>r. query_first (snd (saveItem_handler now args db)) (userId args) (idField_of (itemType args))
            (itemId args) = Some r
       \<and> c_id r = res_id (fst (saveItem_handler now args db))
       \<and> interval r = interval args \<and> nextReview r = nextReview args
       \<and> easeFactor r = easeFactor args \<and> status r = status args
       \<and> lastReview r = Some now"
proof (cases "query_first db (userId args) (idField_of (itemType args)) (itemId args)")
  case None
  then have "find (key_matches (userId args) (idField_of (itemType args)) (itemId args))
               (rows db @ [newCardData now args (next_id db)])
             = Some (newCardData now args (next_id db))"
    unfolding query_first_def
    by (rule find_snoc_absent) (rule key_matches_newCardData)
  then show ?thesis
    using None by (simp add: saveItem_handler_absent query_first_def newCardData_fields)
next
  case (Some r)
  let ?g = "\<lambda>x. if c_id x = c_id r then patch_card now args x else x"
  have "find (key_matches (userId args) (idField_of (itemType args)) (itemId args))
          (map ?g (rows db))
        = map_option ?g
            (find (key_matches (userId args) (idField_of (itemType args)) (itemId args))
               (rows db))"
    by (rule find_map_invariant) simp
  then have "query_first (snd (saveItem_handler now args db)) (userId args)
               (idField_of (itemType args)) (itemId args) = Some (patch_card now args r)"
    using Some by (simp add: saveItem_handler_present query_first_def)
  then show ?thesis
    using Some by (simp add: saveItem_handler_present patch_card_def)
qed

lemma patch_in_place:
  assumes d: "distinct (map c_id xs)" and k: "k < length xs"
  shows "map (\<lambda>x. if c_id x = c_id (xs ! k) then g x else x) xs = xs[k := g (xs ! k)]"
proof (rule nth_equalityI)
  show "length (map (\<lambda>x. if c_id x = c_id (xs ! k) then g x else x) xs)
          = length (xs[k := g (xs ! k)])"
    by simp
next
  fix j
  assume "j < length (map (\<lambda>x. if c_id x = c_id (xs ! k) then g x else x) xs)"
  then have j: "j < length xs" by simp
  have "c_id (xs ! j) = c_id (xs ! k) \<longleftrightarrow> j = k"
    using d j k nth_eq_iff_index_eq [of "map c_id xs" j k] by simp
  then show "map (\<lambda>x. if c_id x = c_id (xs ! k) then g x else x) xs ! j
               = xs[k := g (xs ! k)] ! j"
    using j k by (simp add: nth_list_update)
qed

lemma map_c_id_patch:
  "map c_id (map (\<lambda>x. if c_id x = i then patch_card now args x else x) xs) = map c_id xs"
  by (induction xs) simp_all

lemma wf_deck_ids:
  "wf_deck db \<longleftrightarrow>
     distinct (map c_id (rows db)) \<and> (\<forall>i \<in> set (map c_id (rows db)). i < next_id db)"
  by (simp add: wf_deck_def list_all_iff)

lemma saveItem_handler_wf:
  assumes "wf_deck db"
  shows "wf_deck (snd (saveItem_handler now args db))"
proof (cases "query_first db (userId args) (idField_of (itemType args)) (itemId args)")
  case None
  have "c_id (newCardData now args (next_id db)) = next_id db"
    by (simp add: newCardData_fields)
  then show ?thesis
    using assms None
    by (auto simp add: saveItem_handler_absent wf_deck_def list_all_iff less_Suc_eq)
next
  case (Some r)
  have "map c_id (rows (snd (saveItem_handler now args db))) = map c_id (rows db)"
    and "next_id (snd (saveItem_handler now args db)) = next_id db"
    using Some by (simp_all add: saveItem_handler_present map_c_id_patch)
  then show ?thesis
    using assms unfolding wf_deck_ids by simp
qed


lemma has_key_iff: "has_key u t i r \<longleftrightarrow> key_matches u (idField_of t) i r"
  by (cases t) (simp_all add: has_key_def key_matches_def)

lemma has_key_eq: "has_key u t i = key_matches u (idField_of t) i"
  by (rule ext) (rule has_key_iff)

lemma newCardData_row:
  "newCardData now args n =
     \<lparr> interval = interval args, nextReview = nextReview args,
       easeFactor = easeFactor args, status = status args,
       c_id = n, c_userId = userId args, c_type = itemType args,
       sentenceId = (if itemType args = Sentence then Some (itemId args) else None),
       grammarId = (if itemType args = Grammar then Some (itemId args) else None),
       characterId = (if itemType args = Character then Some (itemId args) else None),
       lastReview = Some now \<rparr>"
  by (cases "itemType args") (simp_all add: newCardData_def)

lemma saveItem_accepted:
  assumes "ids (userId args) = Some TUsers"
    and "ids (itemId args) = Some (table_of (itemType args))"
  shows "saveItem ids now args db
           = (Inr (fst (saveItem_handler now args db)), snd (saveItem_handler now args db))"
  using assms by (simp add: saveItem_def)

lemma saveItem_rejected:
  assumes "ids (userId args) \<noteq> Some TUsers"
  shows "saveItem ids now args db = (Inl ArgumentValidationError, db)"
  using assms by (simp add: saveItem_def)

text \<open>
  C6. \<open>saveItem\<close> is an upsert on the composite key, on a table whose document ids are
  unique and for a key whose user id and item id are ids of their tables. When no row
  of the table has the key, it appends one new row, which has the key, the given state,
  \<open>lastReview = now\<close> and a fresh id, and reports \<open>created\<close>. When rows have the key,
  it overwrites nextReview, interval, easeFactor, status and lastReview of the first of
  them where it stands, all else in the table unchanged, and reports \<open>updated\<close> with
  that row's id. A second call with the same key, whatever its state and time, reports
  \<open>updated\<close> with the id the first call returned, and leaves the ids of the table and
  the number of rows with the key as the first call left them: one row, when the key
  was absent at the start. A call whose user id is not the id of a \<open>users\<close> document,
  or that would insert an item id that is not an id of the item type's table, is
  rejected and leaves the table as it was.
\<close>

theorem saveItem_upsert:
  assumes wf: "wf_deck db"
    and user: "ids (userId args) = Some TUsers"
    and item: "ids (itemId args) = Some (table_of (itemType args))"
    and same_key: "userId args2 = userId args \<and> itemType args2 = itemType args
                   \<and> itemId args2 = itemId args"
    and first: "saveItem ids now args db = (out1, db1)"
    and second: "saveItem ids now2 args2 db1 = (out2, db2)"
  shows "(list_all (\<lambda>r. \<not> has_key (userId args) (itemType args) (itemId args) r) (rows db) \<longrightarrow>
            out1 = Inr \<lparr>action = Created, res_id = next_id db\<rparr>
          \<and> rows db1 = rows db @
                [\<lparr> interval = interval args, nextReview = nextReview args,
                   easeFactor = easeFactor args, status = status args,
                   c_id = next_id db, c_userId = userId args, c_type = itemType args,
                   sentenceId = (if itemType args = Sentence then Some (itemId args) else None),
                   grammarId = (if itemType args = Grammar then Some (itemId args) else None),
                   characterId = (if itemType args = Character then Some (itemId args) else None),
                   lastReview = Some now \<rparr>]
          \<and> next_id db \<notin> set (map c_id (rows db))
          \<and> length (filter (has_key (userId args) (itemType args) (itemId args)) (rows db2)) = 1)
       \<and> (\<forall>k. k < length (rows db)
              \<and> has_key (userId args) (itemType args) (itemId args) (rows db ! k)
              \<and> (\<forall>j<k. \<not> has_key (userId args) (itemType args) (itemId args) (rows db ! j)) \<longrightarrow>
            out1 = Inr \<lparr>action = Updated, res_id = c_id (rows db ! k)\<rparr>
          \<and> rows db1 = (rows db)[k := (rows db ! k)\<lparr>nextReview := nextReview args,
                                                     interval := interval args,
                                                     easeFactor := easeFactor args,
                                                     status := status args,
                                                     lastReview := Some now\<rparr>])
       \<and> wf_deck db1 \<and> wf_deck db2
       \<and> (\<exists>res. out1 = Inr res \<and> out2 = Inr \<lparr>action = Updated, res_id = res_id res\<rparr>)
       \<and> map c_id (rows db2) = map c_id (rows db1)
       \<and> length (filter (has_key (userId args) (itemType args) (itemId args)) (rows db2))
           = length (filter (has_key (userId args) (itemType args) (itemId args)) (rows db1))
       \<and> (ids (userId a) \<noteq> Some TUsers \<longrightarrow>
            saveItem ids t a d = (Inl ArgumentValidationError, d))
       \<and> (ids (userId a) = Some TUsers
            \<and> list_all (\<lambda>r. \<not> has_key (userId a) (itemType a) (itemId a) r) (rows d)
            \<and> ids (itemId a) \<noteq> Some (table_of (itemType a)) \<longrightarrow>
            saveItem ids t a d = (Inl SchemaValidationError, d))"
proof -
  let ?P = "key_matches (userId args) (idField_of (itemType args)) (itemId args)"
  have K: "has_key (userId args) (itemType args) (itemId args) = ?P"
    by (rule has_key_eq)
  have one: "saveItem ids now args db
               = (Inr (fst (saveItem_handler now args db)), snd (saveItem_handler now args db))"
    using user item by (rule saveItem_accepted)
  have out1: "out1 = Inr (fst (saveItem_handler now args db))"
    and db1: "db1 = snd (saveItem_handler now args db)"
    using one first by simp_all
  have user2: "ids (userId args2) = Some TUsers"
    and item2: "ids (itemId args2) = Some (table_of (itemType args2))"
    using user item same_key by simp_all
  have two: "saveItem ids now2 args2 db1
               = (Inr (fst (saveItem_handler now2 args2 db1)),
                  snd (saveItem_handler now2 args2 db1))"
    using user2 item2 by (rule saveItem_accepted)
  obtain r1 where r1: "query_first db1 (userId args) (idField_of (itemType args)) (itemId args)
                         = Some r1"
    and r1_id: "c_id r1 = res_id (fst (saveItem_handler now args db))"
    using saveItem_handler_then_present [of now args db] unfolding db1 by blast
  have "query_first db1 (userId args2) (idField_of (itemType args2)) (itemId args2) = Some r1"
    using r1 same_key by simp
  then have h2: "saveItem_handler now2 args2 db1 =
               (\<lparr>action = Updated, res_id = c_id r1\<rparr>,
                db1\<lparr>rows := map (\<lambda>x. if c_id x = c_id r1 then patch_card now2 args2 x else x)
                                (rows db1)\<rparr>)"
    by (rule saveItem_handler_present)
  have out2: "out2 = Inr \<lparr>action = Updated, res_id = c_id r1\<rparr>"
    and db2: "rows db2 = map (\<lambda>x. if c_id x = c_id r1 then patch_card now2 args2 x else x)
                           (rows db1)"
    using two second h2 by simp_all
  have second_call: "\<exists>res. out1 = Inr res \<and> out2 = Inr \<lparr>action = Updated, res_id = res_id res\<rparr>"
    using out1 out2 r1_id by simp
  have ids_same: "map c_id (rows db2) = map c_id (rows db1)"
    unfolding db2 by (rule map_c_id_patch)
  have "filter ?P (rows db2)
          = map (\<lambda>x. if c_id x = c_id r1 then patch_card now2 args2 x else x)
              (filter ?P (rows db1))"
    unfolding db2 by (rule filter_map_invariant) simp
  then have count: "length (filter ?P (rows db2)) = length (filter ?P (rows db1))"
    by simp
  have wf1: "wf_deck db1"
    unfolding db1 using wf by (rule saveItem_handler_wf)
  have "wf_deck (snd (saveItem_handler now2 args2 db1))"
    using wf1 by (rule saveItem_handler_wf)
  then have wf2: "wf_deck db2"
    using two second by simp
  have absent: "out1 = Inr \<lparr>action = Created, res_id = next_id db\<rparr>
          \<and> rows db1 = rows db @ [newCardData now args (next_id db)]
          \<and> next_id db \<notin> set (map c_id (rows db))
          \<and> length (filter ?P (rows db2)) = 1"
    if none: "list_all (\<lambda>r. \<not> ?P r) (rows db)"
  proof -
    have q: "query_first db (userId args) (idField_of (itemType args)) (itemId args) = None"
      using none by (simp add: query_first_def find_None_iff list_all_iff)
    have eq: "saveItem_handler now args db =
           (\<lparr>action = Created, res_id = next_id db\<rparr>,
            db\<lparr>rows := rows db @ [newCardData now args (next_id db)],
               next_id := Suc (next_id db)\<rparr>)"
      using q by (rule saveItem_handler_absent)
    have rows1: "rows db1 = rows db @ [newCardData now args (next_id db)]"
      and r: "out1 = Inr \<lparr>action = Created, res_id = next_id db\<rparr>"
      using eq out1 db1 by simp_all
    have "filter ?P (rows db) = []"
      using q unfolding query_first_def by (rule filter_absent)
    then have "filter ?P (rows db1) = [newCardData now args (next_id db)]"
      using rows1 key_matches_newCardData [of args now "next_id db"] by simp
    then have one_row: "length (filter ?P (rows db2)) = 1"
      using count by simp
    have fresh: "next_id db \<notin> set (map c_id (rows db))"
      using wf unfolding wf_deck_ids by auto
    show ?thesis
      using rows1 r one_row fresh by simp
  qed
  have present: "out1 = Inr \<lparr>action = Updated, res_id = c_id (rows db ! k)\<rparr>
          \<and> rows db1 = (rows db)[k := (rows db ! k)\<lparr>nextReview := nextReview args,
                                                     interval := interval args,
                                                     easeFactor := easeFactor args,
                                                     status := status args,
                                                     lastReview := Some now\<rparr>]"
    if k: "k < length (rows db) \<and> ?P (rows db ! k) \<and> (\<forall>j<k. \<not> ?P (rows db ! j))"
    for k
  proof -
    have q: "query_first db (userId args) (idField_of (itemType args)) (itemId args)
               = Some (rows db ! k)"
      unfolding query_first_def find_Some_iff using k by blast
    have eq: "saveItem_handler now args db =
           (\<lparr>action = Updated, res_id = c_id (rows db ! k)\<rparr>,
            db\<lparr>rows := map (\<lambda>x. if c_id x = c_id (rows db ! k) then patch_card now args x
                                 else x) (rows db)\<rparr>)"
      using q by (rule saveItem_handler_present)
    have "distinct (map c_id (rows db))"
      using wf by (simp add: wf_deck_def)
    then have "map (\<lambda>x. if c_id x = c_id (rows db ! k) then patch_card now args x else x)
                 (rows db)
               = (rows db)[k := patch_card now args (rows db ! k)]"
      using k by (intro patch_in_place) simp_all
    then have "rows db1 = (rows db)[k := patch_card now args (rows db ! k)]"
      using eq db1 by simp
    then show ?thesis
      using eq out1 by (simp add: patch_card_def)
  qed
  have rejected: "saveItem ids t a d = (Inl ArgumentValidationError, d)"
    if "ids (userId a) \<noteq> Some TUsers"
    using that by (rule saveItem_rejected)
  have unfit: "saveItem ids t a d = (Inl SchemaValidationError, d)"
    if u: "ids (userId a) = Some TUsers
           \<and> list_all (\<lambda>r. \<not> key_matches (userId a) (idField_of (itemType a)) (itemId a) r)
                 (rows d)
           \<and> ids (itemId a) \<noteq> Some (table_of (itemType a))"
  proof -
    have "query_first d (userId a) (idField_of (itemType a)) (itemId a) = None"
      using u by (simp add: query_first_def find_None_iff list_all_iff)
    then show ?thesis
      using u by (simp add: saveItem_def)
  qed
  show ?thesis
    unfolding has_key_eq newCardData_row [symmetric]
    using absent present wf1 wf2 second_call ids_same count rejected unfit by blast
qed

theorem saveItem_upsert_witness:
  "wf_deck
     \<lparr>rows = [\<lparr>interval = 3, nextReview = 100, easeFactor = 2.5, status = Review,
                c_id = 0, c_userId = ''u2'', c_type = Sentence,
                sentenceId = Some ''s1'', grammarId = None, characterId = None,
                lastReview = Some 50\<rparr>,
               \<lparr>interval = 2, nextReview = 200, easeFactor = 2.5, status = Learning,
                c_id = 1, c_userId = ''u1'', c_type = Grammar,
                sentenceId = None, grammarId = Some ''g1'', characterId = None,
                lastReview = None\<rparr>,
               \<lparr>interval = 1, nextReview = 300, easeFactor = 2.6, status = Review,
                c_id = 2, c_userId = ''u1'', c_type = Sentence,
                sentenceId = Some ''s1'', grammarId = None, characterId = None,
                lastReview = Some 10\<rparr>],
       next_id = 3\<rparr>
   \<and> saveItem (map_of [(''u1'', TUsers), (''u2'', TUsers), (''s1'', TSentences), (''s2'', TSentences), (''g1'', TGrammar)])
       20
       \<lparr>interval = 6, nextReview = 518400020, easeFactor = 2.7, status = Review,
        userId = ''u1'', itemId = ''s1'', itemType = Sentence\<rparr>
     \<lparr>rows = [\<lparr>interval = 3, nextReview = 100, easeFactor = 2.5, status = Review,
                c_id = 0, c_userId = ''u2'', c_type = Sentence,
                sentenceId = Some ''s1'', grammarId = None, characterId = None,
                lastReview = Some 50\<rparr>,
               \<lparr>interval = 2, nextReview = 200, easeFactor = 2.5, status = Learning,
                c_id = 1, c_userId = ''u1'', c_type = Grammar,
                sentenceId = None, grammarId = Some ''g1'', characterId = None,
                lastReview = None\<rparr>,
               \<lparr>interval = 1, nextReview = 300, easeFactor = 2.6, status = Review,
                c_id = 2, c_userId = ''u1'', c_type = Sentence,
                sentenceId = Some ''s1'', grammarId = None, characterId = None,
                lastReview = Some 10\<rparr>],
       next_id = 3\<rparr>
     = (Inr \<lparr>action = Updated, res_id = 2\<rparr>,
     \<lparr>rows = [\<lparr>interval = 3, nextReview = 100, easeFactor = 2.5, status = Review,
                c_id = 0, c_userId = ''u2'', c_type = Sentence,
                sentenceId = Some ''s1'', grammarId = None, characterId = None,
                lastReview = Some 50\<rparr>,
               \<lparr>interval = 2, nextReview = 200, easeFactor = 2.5, status = Learning,
                c_id = 1, c_userId = ''u1'', c_type = Grammar,
                sentenceId = None, grammarId = Some ''g1'', characterId = None,
                lastReview = None\<rparr>,
               \<lparr>interval = 6, nextReview = 518400020, easeFactor = 2.7, status = Review,
                c_id = 2, c_userId = ''u1'', c_type = Sentence,
                sentenceId = Some ''s1'', grammarId = None, characterId = None,
                lastReview = Some 20\<rparr>],
       next_id = 3\<rparr>)
   \<and> saveItem (map_of [(''u1'', TUsers), (''u2'', TUsers), (''s1'', TSentences), (''s2'', TSentences), (''g1'', TGrammar)])
       30
       \<lparr>interval = 6, nextReview = 518400020, easeFactor = 2.7, status = Review,
        userId = ''u1'', itemId = ''s1'', itemType = Sentence\<rparr>
     \<lparr>rows = [\<lparr>interval = 3, nextReview = 100, easeFactor = 2.5, status = Review,
                c_id = 0, c_userId = ''u2'', c_type = Sentence,
                sentenceId = Some ''s1'', grammarId = None, characterId = None,
                lastReview = Some 50\<rparr>,
               \<lparr>interval = 2, nextReview = 200, easeFactor = 2.5, status = Learning,
                c_id = 1, c_userId = ''u1'', c_type = Grammar,
                sentenceId = None, grammarId = Some ''g1'', characterId = None,
                lastReview = None\<rparr>,
               \<lparr>interval = 6, nextReview = 518400020, easeFactor = 2.7, status = Review,
                c_id = 2, c_userId = ''u1'', c_type = Sentence,
                sentenceId = Some ''s1'', grammarId = None, characterId = None,
                lastReview = Some 20\<rparr>],
       next_id = 3\<rparr>
     = (Inr \<lparr>action = Updated, res_id = 2\<rparr>,
     \<lparr>rows = [\<lparr>interval = 3, nextReview = 100, easeFactor = 2.5, status = Review,
                c_id = 0, c_userId = ''u2'', c_type = Sentence,
                sentenceId = Some ''s1'', grammarId = None, characterId = None,
                lastReview = Some 50\<rparr>,
               \<lparr>interval = 2, nextReview = 200, easeFactor = 2.5, status = Learning,
                c_id = 1, c_userId = ''u1'', c_type = Grammar,
                sentenceId = None, grammarId = Some ''g1'', characterId = None,
                lastReview = None\<rparr>,
               \<lparr>interval = 6, nextReview = 518400020, easeFactor = 2.7, status = Review,
                c_id = 2, c_userId = ''u1'', c_type = Sentence,
                sentenceId = Some ''s1'', grammarId = None, characterId = None,
                lastReview = Some 30\<rparr>],
       next_id = 3\<rparr>)
   \<and> saveItem (map_of [(''u1'', TUsers), (''u2'', TUsers), (''s1'', TSentences), (''s2'', TSentences), (''g1'', TGrammar)])
       20
       \<lparr>interval = 1, nextReview = 86400020, easeFactor = 2.6, status = Learning,
        userId = ''u1'', itemId = ''s2'', itemType = Sentence\<rparr>
     \<lparr>rows = [\<lparr>interval = 3, nextReview = 100, easeFactor = 2.5, status = Review,
                c_id = 0, c_userId = ''u2'', c_type = Sentence,
                sentenceId = Some ''s1'', grammarId = None, characterId = None,
                lastReview = Some 50\<rparr>,
               \<lparr>interval = 2, nextReview = 200, easeFactor = 2.5, status = Learning,
                c_id = 1, c_userId = ''u1'', c_type = Grammar,
                sentenceId = None, grammarId = Some ''g1'', characterId = None,
                lastReview = None\<rparr>,
               \<lparr>interval = 1, nextReview = 300, easeFactor = 2.6, status = Review,
                c_id = 2, c_userId = ''u1'', c_type = Sentence,
                sentenceId = Some ''s1'', grammarId = None, characterId = None,
                lastReview = Some 10\<rparr>],
       next_id = 3\<rparr>
     = (Inr \<lparr>action = Created, res_id = 3\<rparr>,
     \<lparr>rows = [\<lparr>interval = 3, nextReview = 100, easeFactor = 2.5, status = Review,
                c_id = 0, c_userId = ''u2'', c_type = Sentence,
                sentenceId = Some ''s1'', grammarId = None, characterId = None,
                lastReview = Some 50\<rparr>,
               \<lparr>interval = 2, nextReview = 200, easeFactor = 2.5, status = Learning,
                c_id = 1, c_userId = ''u1'', c_type = Grammar,
                sentenceId = None, grammarId = Some ''g1'', characterId = None,
                lastReview = None\<rparr>,
               \<lparr>interval = 1, nextReview = 300, easeFactor = 2.6, status = Review,
                c_id = 2, c_userId = ''u1'', c_type = Sentence,
                sentenceId = Some ''s1'', grammarId = None, characterId = None,
                lastReview = Some 10\<rparr>,
               \<lparr>interval = 1, nextReview = 86400020, easeFactor = 2.6, status = Learning,
                c_id = 3, c_userId = ''u1'', c_type = Sentence,
                sentenceId = Some ''s2'', grammarId = None, characterId = None,
                lastReview = Some 20\<rparr>],
       next_id = 4\<rparr>)
   \<and> saveItem (map_of [(''u1'', TUsers), (''u2'', TUsers), (''s1'', TSentences), (''s2'', TSentences), (''g1'', TGrammar)])
       30
       \<lparr>interval = 1, nextReview = 86400020, easeFactor = 2.6, status = Learning,
        userId = ''u1'', itemId = ''s2'', itemType = Sentence\<rparr>
     \<lparr>rows = [\<lparr>interval = 3, nextReview = 100, easeFactor = 2.5, status = Review,
                c_id = 0, c_userId = ''u2'', c_type = Sentence,
                sentenceId = Some ''s1'', grammarId = None, characterId = None,
                lastReview = Some 50\<rparr>,
               \<lparr>interval = 2, nextReview = 200, easeFactor = 2.5, status = Learning,
                c_id = 1, c_userId = ''u1'', c_type = Grammar,
                sentenceId = None, grammarId = Some ''g1'', characterId = None,
                lastReview = None\<rparr>,
               \<lparr>interval = 1, nextReview = 300, easeFactor = 2.6, status = Review,
                c_id = 2, c_userId = ''u1'', c_type = Sentence,
                sentenceId = Some ''s1'', grammarId = None, characterId = None,
                lastReview = Some 10\<rparr>,
               \<lparr>interval = 1, nextReview = 86400020, easeFactor = 2.6, status = Learning,
                c_id = 3, c_userId = ''u1'', c_type = Sentence,
                sentenceId = Some ''s2'', grammarId = None, characterId = None,
                lastReview = Some 20\<rparr>],
       next_id = 4\<rparr>
     = (Inr \<lparr>action = Updated, res_id = 3\<rparr>,
     \<lparr>rows = [\<lparr>interval = 3, nextReview = 100, easeFactor = 2.5, status = Review,
                c_id = 0, c_userId = ''u2'', c_type = Sentence,
                sentenceId = Some ''s1'', grammarId = None, characterId = None,
                lastReview = Some 50\<rparr>,
               \<lparr>interval = 2, nextReview = 200, easeFactor = 2.5, status = Learning,
                c_id = 1, c_userId = ''u1'', c_type = Grammar,
                sentenceId = None, grammarId = Some ''g1'', characterId = None,
                lastReview = None\<rparr>,
               \<lparr>interval = 1, nextReview = 300, easeFactor = 2.6, status = Review,
                c_id = 2, c_userId = ''u1'', c_type = Sentence,
                sentenceId = Some ''s1'', grammarId = None, characterId = None,
                lastReview = Some 10\<rparr>,
               \<lparr>interval = 1, nextReview = 86400020, easeFactor = 2.6, status = Learning,
                c_id = 3, c_userId = ''u1'', c_type = Sentence,
                sentenceId = Some ''s2'', grammarId = None, characterId = None,
                lastReview = Some 30\<rparr>],
       next_id = 4\<rparr>)
   \<and> length (filter (has_key ''u1'' Sentence ''s2'')
       (rows
     \<lparr>rows = [\<lparr>interval = 3, nextReview = 100, easeFactor = 2.5, status = Review,
                c_id = 0, c_userId = ''u2'', c_type = Sentence,
                sentenceId = Some ''s1'', grammarId = None, characterId = None,
                lastReview = Some 50\<rparr>,
               \<lparr>interval = 2, nextReview = 200, easeFactor = 2.5, status = Learning,
                c_id = 1, c_userId = ''u1'', c_type = Grammar,
                sentenceId = None, grammarId = Some ''g1'', characterId = None,
                lastReview = None\<rparr>,
               \<lparr>interval = 1, nextReview = 300, easeFactor = 2.6, status = Review,
                c_id = 2, c_userId = ''u1'', c_type = Sentence,
                sentenceId = Some ''s1'', grammarId = None, characterId = None,
                lastReview = Some 10\<rparr>,
               \<lparr>interval = 1, nextReview = 86400020, easeFactor = 2.6, status = Learning,
                c_id = 3, c_userId = ''u1'', c_type = Sentence,
                sentenceId = Some ''s2'', grammarId = None, characterId = None,
                lastReview = Some 30\<rparr>],
       next_id = 4\<rparr>)) = 1
   \<and> saveItem (map_of [(''u1'', TUsers), (''u2'', TUsers), (''s1'', TSentences), (''s2'', TSentences), (''g1'', TGrammar)])
       20
       \<lparr>interval = 3, nextReview = 259200020, easeFactor = 2.5, status = Review,
        userId = ''users:123'', itemId = ''s1'', itemType = Sentence\<rparr>
     \<lparr>rows = [\<lparr>interval = 3, nextReview = 100, easeFactor = 2.5, status = Review,
                c_id = 0, c_userId = ''u2'', c_type = Sentence,
                sentenceId = Some ''s1'', grammarId = None, characterId = None,
                lastReview = Some 50\<rparr>,
               \<lparr>interval = 2, nextReview = 200, easeFactor = 2.5, status = Learning,
                c_id = 1, c_userId = ''u1'', c_type = Grammar,
                sentenceId = None, grammarId = Some ''g1'', characterId = None,
                lastReview = None\<rparr>,
               \<lparr>interval = 1, nextReview = 300, easeFactor = 2.6, status = Review,
                c_id = 2, c_userId = ''u1'', c_type = Sentence,
                sentenceId = Some ''s1'', grammarId = None, characterId = None,
                lastReview = Some 10\<rparr>],
       next_id = 3\<rparr>
     = (Inl ArgumentValidationError,
     \<lparr>rows = [\<lparr>interval = 3, nextReview = 100, easeFactor = 2.5, status = Review,
                c_id = 0, c_userId = ''u2'', c_type = Sentence,
                sentenceId = Some ''s1'', grammarId = None, characterId = None,
                lastReview = Some 50\<rparr>,
               \<lparr>interval = 2, nextReview = 200, easeFactor = 2.5, status = Learning,
                c_id = 1, c_userId = ''u1'', c_type = Grammar,
                sentenceId = None, grammarId = Some ''g1'', characterId = None,
                lastReview = None\<rparr>,
               \<lparr>interval = 1, nextReview = 300, easeFactor = 2.6, status = Review,
                c_id = 2, c_userId = ''u1'', c_type = Sentence,
                sentenceId = Some ''s1'', grammarId = None, characterId = None,
                lastReview = Some 10\<rparr>],
       next_id = 3\<rparr>)
   \<and> saveItem (map_of [(''u1'', TUsers), (''u2'', TUsers), (''s1'', TSentences), (''s2'', TSentences), (''g1'', TGrammar)])
       20
       \<lparr>interval = 3, nextReview = 259200020, easeFactor = 2.5, status = Review,
        userId = ''u1'', itemId = ''g1'', itemType = Sentence\<rparr>
     \<lparr>rows = [\<lparr>interval = 3, nextReview = 100, easeFactor = 2.5, status = Review,
                c_id = 0, c_userId = ''u2'', c_type = Sentence,
                sentenceId = Some ''s1'', grammarId = None, characterId = None,
                lastReview = Some 50\<rparr>,
               \<lparr>interval = 2, nextReview = 200, easeFactor = 2.5, status = Learning,
                c_id = 1, c_userId = ''u1'', c_type = Grammar,
                sentenceId = None, grammarId = Some ''g1'', characterId = None,
                lastReview = None\<rparr>,
               \<lparr>interval = 1, nextReview = 300, easeFactor = 2.6, status = Review,
                c_id = 2, c_userId = ''u1'', c_type = Sentence,
                sentenceId = Some ''s1'', grammarId = None, characterId = None,
                lastReview = Some 10\<rparr>],
       next_id = 3\<rparr>
     = (Inl SchemaValidationError,
     \<lparr>rows = [\<lparr>interval = 3, nextReview = 100, easeFactor = 2.5, status = Review,
                c_id = 0, c_userId = ''u2'', c_type = Sentence,
                sentenceId = Some ''s1'', grammarId = None, characterId = None,
                lastReview = Some 50\<rparr>,
               \<lparr>interval = 2, nextReview = 200, easeFactor = 2.5, status = Learning,
                c_id = 1, c_userId = ''u1'', c_type = Grammar,
                sentenceId = None, grammarId = Some ''g1'', characterId = None,
                lastReview = None\<rparr>,
               \<lparr>interval = 1, nextReview = 300, easeFactor = 2.6, status = Review,
                c_id = 2, c_userId = ''u1'', c_type = Sentence,
                sentenceId = Some ''s1'', grammarId = None, characterId = None,
                lastReview = Some 10\<rparr>],
       next_id = 3\<rparr>)"
  (is "?wf \<and> ?a1 \<and> ?a2 \<and> ?b1 \<and> ?b2 \<and> ?one \<and> ?c \<and> ?d")
proof -
  let ?ids = "map_of [(''u1'', TUsers), (''u2'', TUsers), (''s1'', TSentences),
                      (''s2'', TSentences), (''g1'', TGrammar)]"
  let ?A = "\<lparr>interval = 6, nextReview = 518400020, easeFactor = 2.7, status = Review,
        userId = ''u1'', itemId = ''s1'', itemType = Sentence\<rparr>"
  let ?B = "\<lparr>interval = 1, nextReview = 86400020, easeFactor = 2.6, status = Learning,
        userId = ''u1'', itemId = ''s2'', itemType = Sentence\<rparr>"
  let ?C = "\<lparr>interval = 3, nextReview = 259200020, easeFactor = 2.5, status = Review,
        userId = ''users:123'', itemId = ''s1'', itemType = Sentence\<rparr>"
  let ?D = "\<lparr>interval = 3, nextReview = 259200020, easeFactor = 2.5, status = Review,
        userId = ''u1'', itemId = ''g1'', itemType = Sentence\<rparr>"
  let ?db = "\<lparr>rows = [\<lparr>interval = 3, nextReview = 100, easeFactor = 2.5, status = Review,
                c_id = 0, c_userId = ''u2'', c_type = Sentence,
                sentenceId = Some ''s1'', grammarId = None, characterId = None,
                lastReview = Some 50\<rparr>,
               \<lparr>interval = 2, nextReview = 200, easeFactor = 2.5, status = Learning,
                c_id = 1, c_userId = ''u1'', c_type = Grammar,
                sentenceId = None, grammarId = Some ''g1'', characterId = None,
                lastReview = None\<rparr>,
               \<lparr>interval = 1, nextReview = 300, easeFactor = 2.6, status = Review,
                c_id = 2, c_userId = ''u1'', c_type = Sentence,
                sentenceId = Some ''s1'', grammarId = None, characterId = None,
                lastReview = Some 10\<rparr>],
       next_id = 3\<rparr>"
  have wf: ?wf
    by (simp add: wf_deck_def)
  have a1: ?a1
    by (simp add: saveItem_def saveItem_handler_def query_first_def key_matches_def
        db_patch_def patch_card_def Let_def)
  have a2: ?a2
    by (simp add: saveItem_def saveItem_handler_def query_first_def key_matches_def
        db_patch_def patch_card_def Let_def)
  have b1: ?b1
    by (simp add: saveItem_def saveItem_handler_def query_first_def key_matches_def
        db_insert_def newCardData_def Let_def)
  have b2: ?b2
    by (simp add: saveItem_def saveItem_handler_def query_first_def key_matches_def
        db_patch_def patch_card_def Let_def)
  have userA: "?ids (userId ?A) = Some TUsers"
    and itemA: "?ids (itemId ?A) = Some (table_of (itemType ?A))"
    and userB: "?ids (userId ?B) = Some TUsers"
    and itemB: "?ids (itemId ?B) = Some (table_of (itemType ?B))"
    by simp_all
  have keyA: "userId ?A = userId ?A \<and> itemType ?A = itemType ?A \<and> itemId ?A = itemId ?A"
    and keyB: "userId ?B = userId ?B \<and> itemType ?B = itemType ?B \<and> itemId ?B = itemId ?B"
    by simp_all
  note present = saveItem_upsert [OF wf userA itemA keyA a1 a2, of ?C 20 ?db]
  note absent = saveItem_upsert [OF wf userB itemB keyB b1 b2, of ?D 20 ?db]
  have c: ?c
    using present by simp
  have "list_all (\<lambda>r. \<not> has_key (userId ?D) (itemType ?D) (itemId ?D) r) (rows ?db)"
    by (simp add: has_key_def)
  then have d: ?d
    using absent by simp
  have "wf_deck
     \<lparr>rows = [\<lparr>interval = 3, nextReview = 100, easeFactor = 2.5, status = Review,
                c_id = 0, c_userId = ''u2'', c_type = Sentence,
                sentenceId = Some ''s1'', grammarId = None, characterId = None,
                lastReview = Some 50\<rparr>,
               \<lparr>interval = 2, nextReview = 200, easeFactor = 2.5, status = Learning,
                c_id = 1, c_userId = ''u1'', c_type = Grammar,
                sentenceId = None, grammarId = Some ''g1'', characterId = None,
                lastReview = None\<rparr>,
               \<lparr>interval = 6, nextReview = 518400020, easeFactor = 2.7, status = Review,
                c_id = 2, c_userId = ''u1'', c_type = Sentence,
                sentenceId = Some ''s1'', grammarId = None, characterId = None,
                lastReview = Some 20\<rparr>],
       next_id = 3\<rparr>"
    using present by blast
  moreover have one: ?one
    using absent by (simp add: has_key_def)
  ultimately show ?thesis
    using wf a1 a2 b1 b2 c d by blast
qed


section \<open>Properties of the review screen\<close>

lemma handleGrade_failed:
  "handleGrade False clientNow serverNow g w
     = (Some (if length (sessionQueue (screen w)) \<le> currentIndex (screen w)
              then TypeError else StoreError), w)"
  by (simp add: handleGrade_def Let_def)

lemma handleGrade_device:
  "device (snd (handleGrade store_ok clientNow serverNow g w)) = device w"
  by (simp add: handleGrade_def Let_def split_beta)

lemma handleGrade_sessionQueue:
  "sessionQueue (screen (snd (handleGrade store_ok clientNow serverNow g w)))
     = sessionQueue (screen w)"
  by (simp add: handleGrade_def Let_def split_beta)

lemma handleGrade_deck:
  assumes "currentIndex (screen w) < length (sessionQueue (screen w))"
  shows "deck (snd (handleGrade True clientNow serverNow g w))
           = snd (saveItem_handler serverNow
                    (gradeArgs clientNow g (sessionQueue (screen w) ! currentIndex (screen w)))
                    (deck w))"
  using assms by (simp add: handleGrade_def Let_def split_beta)

lemma handleGrade_advances:
  assumes "currentIndex (screen w) < length (sessionQueue (screen w))"
  shows "fst (handleGrade True clientNow serverNow g w) = None
         \<and> (if currentIndex (screen w) < length (sessionQueue (screen w)) - 1
            then currentIndex (screen (snd (handleGrade True clientNow serverNow g w)))
                   = currentIndex (screen w) + 1
                 \<and> viewState (screen (snd (handleGrade True clientNow serverNow g w)))
                   = viewState (screen w)
            else viewState (screen (snd (handleGrade True clientNow serverNow g w))) = Summary)"
  using assms by (simp add: handleGrade_def Let_def split_beta)

text \<open>
  C8, as the code has it. When the awaited upsert fails, \<open>handleGrade\<close> throws and
  leaves everything as it was: statistics, index and view are untouched, so the session
  stays on the same card. Whatever the outcome of the upsert, the device storage, and
  with it the offline queue, is unchanged. The session advances (to the next card, or
  to the summary after the last one) when the upsert succeeds.
\<close>

theorem handleGrade_store_failure:
  "fst (handleGrade False clientNow serverNow g w) \<noteq> None
   \<and> snd (handleGrade False clientNow serverNow g w) = w
   \<and> device (snd (handleGrade store_ok clientNow serverNow g w)) = device w
   \<and> (currentIndex (screen w) < length (sessionQueue (screen w)) \<longrightarrow>
        fst (handleGrade True clientNow serverNow g w) = None
        \<and> (if currentIndex (screen w) < length (sessionQueue (screen w)) - 1
            then currentIndex (screen (snd (handleGrade True clientNow serverNow g w)))
                   = currentIndex (screen w) + 1
                 \<and> viewState (screen (snd (handleGrade True clientNow serverNow g w)))
                   = viewState (screen w)
            else viewState (screen (snd (handleGrade True clientNow serverNow g w))) = Summary))"
  using handleGrade_advances [of w clientNow serverNow g]
  by (simp add: handleGrade_failed handleGrade_device)

theorem handleGrade_store_failure_witness:
  "snd (handleGrade False 1000 1000 3
     \<lparr>screen = \<lparr>sentences = Some [], viewState = Session,
                sessionQueue =
                  [\<lparr>item_id = ''s1'', item_type = Sentence,
                    content = \<lparr>s_id = ''s1'', original = ''a'', pinyin = ''b'', translation = ''c''\<rparr>,
                    due = True, item_status = New\<rparr>,
                   \<lparr>item_id = ''s2'', item_type = Sentence,
                    content = \<lparr>s_id = ''s2'', original = ''d'', pinyin = ''e'', translation = ''f''\<rparr>,
                    due = True, item_status = Review\<rparr>],
                currentIndex = 0, isFlipped = True,
                sessionResults = \<lparr>correct = 0, incorrect = 0, xpGained = 0\<rparr>\<rparr>,
      deck = \<lparr>rows = [], next_id = 0\<rparr>,
      device = Map.empty\<rparr>)
   = \<lparr>screen = \<lparr>sentences = Some [], viewState = Session,
                sessionQueue =
                  [\<lparr>item_id = ''s1'', item_type = Sentence,
                    content = \<lparr>s_id = ''s1'', original = ''a'', pinyin = ''b'', translation = ''c''\<rparr>,
                    due = True, item_status = New\<rparr>,
                   \<lparr>item_id = ''s2'', item_type = Sentence,
                    content = \<lparr>s_id = ''s2'', original = ''d'', pinyin = ''e'', translation = ''f''\<rparr>,
                    due = True, item_status = Review\<rparr>],
                currentIndex = 0, isFlipped = True,
                sessionResults = \<lparr>correct = 0, incorrect = 0, xpGained = 0\<rparr>\<rparr>,
      deck = \<lparr>rows = [], next_id = 0\<rparr>,
      device = Map.empty\<rparr>
   \<and> currentIndex (screen (snd (handleGrade True 1000 1000 3
     \<lparr>screen = \<lparr>sentences = Some [], viewState = Session,
                sessionQueue =
                  [\<lparr>item_id = ''s1'', item_type = Sentence,
                    content = \<lparr>s_id = ''s1'', original = ''a'', pinyin = ''b'', translation = ''c''\<rparr>,
                    due = True, item_status = New\<rparr>,
                   \<lparr>item_id = ''s2'', item_type = Sentence,
                    content = \<lparr>s_id = ''s2'', original = ''d'', pinyin = ''e'', translation = ''f''\<rparr>,
                    due = True, item_status = Review\<rparr>],
                currentIndex = 0, isFlipped = True,
                sessionResults = \<lparr>correct = 0, incorrect = 0, xpGained = 0\<rparr>\<rparr>,
      deck = \<lparr>rows = [], next_id = 0\<rparr>,
      device = Map.empty\<rparr>))) = 1"
  using handleGrade_store_failure
    [of 1000 1000 3
      "\<lparr>screen = \<lparr>sentences = Some [], viewState = Session,
                sessionQueue =
                  [\<lparr>item_id = ''s1'', item_type = Sentence,
                    content = \<lparr>s_id = ''s1'', original = ''a'', pinyin = ''b'', translation = ''c''\<rparr>,
                    due = True, item_status = New\<rparr>,
                   \<lparr>item_id = ''s2'', item_type = Sentence,
                    content = \<lparr>s_id = ''s2'', original = ''d'', pinyin = ''e'', translation = ''f''\<rparr>,
                    due = True, item_status = Review\<rparr>],
                currentIndex = 0, isFlipped = True,
                sessionResults = \<lparr>correct = 0, incorrect = 0, xpGained = 0\<rparr>\<rparr>,
      deck = \<lparr>rows = [], next_id = 0\<rparr>,
      device = Map.empty\<rparr>" True]
  by simp

text \<open>
  C8, as the spec words it, has the session advance after a failed upsert, with the
  grade queued. On the first of two cards, with the store failing, grade 3 leaves the
  index at 0 and the offline queue empty.
\<close>

theorem handleGrade_failure_blocks_and_drops:
  "handleGrade False 1000 1000 3
     \<lparr>screen = \<lparr>sentences = Some [], viewState = Session,
                sessionQueue =
                  [\<lparr>item_id = ''s1'', item_type = Sentence,
                    content = \<lparr>s_id = ''s1'', original = ''a'', pinyin = ''b'', translation = ''c''\<rparr>,
                    due = True, item_status = New\<rparr>,
                   \<lparr>item_id = ''s2'', item_type = Sentence,
                    content = \<lparr>s_id = ''s2'', original = ''d'', pinyin = ''e'', translation = ''f''\<rparr>,
                    due = True, item_status = Review\<rparr>],
                currentIndex = 0, isFlipped = True,
                sessionResults = \<lparr>correct = 0, incorrect = 0, xpGained = 0\<rparr>\<rparr>,
      deck = \<lparr>rows = [], next_id = 0\<rparr>,
      device = Map.empty\<rparr>
   = (Some StoreError,
      \<lparr>screen = \<lparr>sentences = Some [], viewState = Session,
                sessionQueue =
                  [\<lparr>item_id = ''s1'', item_type = Sentence,
                    content = \<lparr>s_id = ''s1'', original = ''a'', pinyin = ''b'', translation = ''c''\<rparr>,
                    due = True, item_status = New\<rparr>,
                   \<lparr>item_id = ''s2'', item_type = Sentence,
                    content = \<lparr>s_id = ''s2'', original = ''d'', pinyin = ''e'', translation = ''f''\<rparr>,
                    due = True, item_status = Review\<rparr>],
                currentIndex = 0, isFlipped = True,
                sessionResults = \<lparr>correct = 0, incorrect = 0, xpGained = 0\<rparr>\<rparr>,
      deck = \<lparr>rows = [], next_id = 0\<rparr>,
      device = Map.empty\<rparr>)
   \<and> getPendingReviews True Map.empty = Pending []"
  by (simp add: handleGrade_def getPendingReviews_def Storage_getItem_def Let_def)

lemma react_sessionQueue:
  assumes "viewState (screen w) = Session"
  shows "sessionQueue (screen (react e w)) = sessionQueue (screen w)"
  using assms by (cases e) (simp_all add: handleFlip_def handleGrade_sessionQueue)

lemma step_sessionQueue:
  assumes "viewState (screen w) = Session"
  shows "sessionQueue (screen (step e w)) = sessionQueue (screen w)"
  using assms react_sessionQueue [of w e]
  by (cases e) (simp_all add: step_def)

lemma session_run_sessionQueue:
  "sessionQueue (screen (session_run es w)) = sessionQueue (screen w)"
  by (induction es arbitrary: w) (simp_all add: step_sessionQueue)

text \<open>
  C9. With no due item \<open>startSession\<close> changes nothing, and the start button leaves
  the whole state, the dashboard view included, as it was. With due items it shows the
  session view with the due items as the queue, of the same length, at index 0; and
  whatever events follow while the session view is shown (answers shown, grades given,
  new query results delivered), the queue remains that list of due items.
\<close>

theorem startSession_snapshot:
  "(dueItems (sentences (screen w)) = [] \<longrightarrow>
        startSession (screen w) = screen w \<and> step ClickStart w = w)
   \<and> (dueItems (sentences (screen w)) \<noteq> [] \<longrightarrow>
        viewState (startSession (screen w)) = Session
        \<and> sessionQueue (startSession (screen w)) = dueItems (sentences (screen w))
        \<and> length (sessionQueue (startSession (screen w)))
            = length (dueItems (sentences (screen w)))
        \<and> currentIndex (startSession (screen w)) = 0
        \<and> sessionQueue (screen (session_run es (w\<lparr>screen := startSession (screen w)\<rparr>)))
            = dueItems (sentences (screen w)))"
  by (simp add: startSession_def session_run_sessionQueue step_def)

theorem startSession_snapshot_witness:
  "dueItems (Some [\<lparr>s_id = ''s1'', original = ''a'', pinyin = ''b'', translation = ''c''\<rparr>])
     = [\<lparr>item_id = ''s1'', item_type = Sentence,
         content = \<lparr>s_id = ''s1'', original = ''a'', pinyin = ''b'', translation = ''c''\<rparr>,
         due = True, item_status = New\<rparr>]
   \<and> sessionQueue (screen (session_run
         [ClickShowAnswer,
          QueryUpdate (Some [\<lparr>s_id = ''s9'', original = ''x'', pinyin = ''y'', translation = ''z''\<rparr>]),
          ClickGrade 3 True 1000 1000]
         \<lparr>screen = startSession
             \<lparr>sentences =
                 Some [\<lparr>s_id = ''s1'', original = ''a'', pinyin = ''b'', translation = ''c''\<rparr>],
               viewState = Dashboard, sessionQueue = [], currentIndex = 0,
               isFlipped = False,
               sessionResults = \<lparr>correct = 0, incorrect = 0, xpGained = 0\<rparr>\<rparr>,
           deck = \<lparr>rows = [], next_id = 0\<rparr>, device = Map.empty\<rparr>))
     = [\<lparr>item_id = ''s1'', item_type = Sentence,
         content = \<lparr>s_id = ''s1'', original = ''a'', pinyin = ''b'', translation = ''c''\<rparr>,
         due = True, item_status = New\<rparr>]
   \<and> dueItems (Some []) = []
   \<and> step ClickStart
         \<lparr>screen = \<lparr>sentences = Some [], viewState = Dashboard, sessionQueue = [],
                    currentIndex = 0, isFlipped = False,
                    sessionResults = \<lparr>correct = 0, incorrect = 0, xpGained = 0\<rparr>\<rparr>,
          deck = \<lparr>rows = [], next_id = 0\<rparr>, device = Map.empty\<rparr>
       = \<lparr>screen = \<lparr>sentences = Some [], viewState = Dashboard, sessionQueue = [],
                    currentIndex = 0, isFlipped = False,
                    sessionResults = \<lparr>correct = 0, incorrect = 0, xpGained = 0\<rparr>\<rparr>,
          deck = \<lparr>rows = [], next_id = 0\<rparr>, device = Map.empty\<rparr>"
  (is "?due \<and> ?queue \<and> ?none \<and> ?refused")
proof -
  have due: ?due
    by (simp add: dueItems_def reviewDeck_def)
  have none: ?none
    by (simp add: dueItems_def reviewDeck_def)
  have queue: ?queue
    using due startSession_snapshot
      [of "\<lparr>screen = \<lparr>sentences =
                       Some [\<lparr>s_id = ''s1'', original = ''a'', pinyin = ''b'', translation = ''c''\<rparr>],
                     viewState = Dashboard, sessionQueue = [], currentIndex = 0,
                     isFlipped = False,
                     sessionResults = \<lparr>correct = 0, incorrect = 0, xpGained = 0\<rparr>\<rparr>,
           deck = \<lparr>rows = [], next_id = 0\<rparr>, device = Map.empty\<rparr>"
          "[ClickShowAnswer,
            QueryUpdate (Some [\<lparr>s_id = ''s9'', original = ''x'', pinyin = ''y'', translation = ''z''\<rparr>]),
            ClickGrade 3 True 1000 1000]"]
    by (simp del: session_run.simps)
  have ?refused
    using none startSession_snapshot
      [of "\<lparr>screen = \<lparr>sentences = Some [], viewState = Dashboard, sessionQueue = [],
                    currentIndex = 0, isFlipped = False,
                    sessionResults = \<lparr>correct = 0, incorrect = 0, xpGained = 0\<rparr>\<rparr>,
          deck = \<lparr>rows = [], next_id = 0\<rparr>, device = Map.empty\<rparr>" "[]"]
    by simp
  then show ?thesis using due none queue by blast
qed






section \<open>Properties of the offline cache\<close>

lemma getPendingReviews_queue:
  assumes "getPendingReviews rd_ok st = Pending pending"
  shows "queuePendingReview rd_ok True uuid now act st
           = (None, st(PENDING_SYNC \<mapsto> Actions (pending @
                [\<lparr> a_itemId = a_itemId act, a_itemType = a_itemType act,
                   a_grade = a_grade act, a_id = uuid, a_timestamp = now \<rparr>])))"
  using assms by (simp add: queuePendingReview_def Storage_setItem_def)

lemma queuePendingReview_not_an_array:
  assumes "getPendingReviews rd_ok st = NotAnArray"
  shows "queuePendingReview rd_ok wr_ok uuid now act st = (Some TypeError, st)"
  using assms by (simp add: queuePendingReview_def)

lemma getPendingReviews_clear:
  "getPendingReviews rd_ok (clearPendingReviews True st) = Pending []"
  by (simp add: clearPendingReviews_def getPendingReviews_def Storage_getItem_def
      Storage_removeItem_def)

lemma react_device: "device (react e w) = device w"
  by (cases e) (simp_all add: handleGrade_device)

lemma step_device: "device (step e w) = device w"
  by (cases e) (simp_all add: step_def react_device del: react.simps)

text \<open>
  C7, where the code falls short of its own comments. The cache says of a queued action
  that it will be sent to the backend when the connection is restored, and of
  \<open>clearPendingReviews\<close> that it be called only after the data was sent. Nothing
  sends: no event of the screen reads or changes the device storage, so two queued
  actions stay queued, in the order they came; and the one operation that removes
  actions removes them all at once, whether sent or not.
\<close>

theorem queued_actions_are_never_replayed:
  "device (step e w) = device w
   \<and> getPendingReviews True
       (snd (queuePendingReview True True ''b'' 2
          \<lparr>a_itemId = ''s2'', a_itemType = Sentence, a_grade = 5\<rparr>
          (snd (queuePendingReview True True ''a'' 1
             \<lparr>a_itemId = ''s1'', a_itemType = Sentence, a_grade = 3\<rparr> Map.empty))))
     = Pending
         [\<lparr>a_itemId = ''s1'', a_itemType = Sentence, a_grade = 3, a_id = ''a'', a_timestamp = 1\<rparr>,
          \<lparr>a_itemId = ''s2'', a_itemType = Sentence, a_grade = 5, a_id = ''b'', a_timestamp = 2\<rparr>]
   \<and> getPendingReviews True
       (clearPendingReviews True
          (snd (queuePendingReview True True ''b'' 2
             \<lparr>a_itemId = ''s2'', a_itemType = Sentence, a_grade = 5\<rparr>
             (snd (queuePendingReview True True ''a'' 1
                \<lparr>a_itemId = ''s1'', a_itemType = Sentence, a_grade = 3\<rparr> Map.empty)))))
     = Pending []"
  by (simp add: step_device queuePendingReview_def clearPendingReviews_def
      getPendingReviews_def Storage_getItem_def Storage_setItem_def Storage_removeItem_def
      Let_def)

end
